theory Spec2Isabelle
  imports Main "HOL-Library.Sublist"
begin

section \<open>Python values and library functions\<close>

text \<open>
  The three programs of the repository (\<^verbatim>\<open>producer.py\<close>,
  \<^verbatim>\<open>lambda_functions/enrich_trip_data.py\<close> and
  \<^verbatim>\<open>lambda_functions/process_and_store.py\<close>) work on the values that
  \<^verbatim>\<open>json.loads\<close> and \<^verbatim>\<open>csv.DictReader\<close> produce: \<^verbatim>\<open>None\<close>, booleans,
  unbounded integers, floats, strings, lists and dictionaries. A dictionary is an
  association list in insertion order with one entry for each key.

  Binary floating point is not modelled by a fixed arithmetic. The type of floats is a
  parameter \<open>'f\<close>, and every operation on floats that the programs use is a field of the
  record \<open>pylib\<close>, as are the other functions of the Python library whose results the
  programs only pass on (\<^verbatim>\<open>str\<close>, \<^verbatim>\<open>Decimal\<close>, \<^verbatim>\<open>json.loads\<close>, \<^verbatim>\<open>json.dumps\<close>,
  \<^verbatim>\<open>base64.b64decode\<close>). A theorem stated for every \<open>L\<close> holds for IEEE 754 doubles
  as for any other implementation.
\<close>

datatype error =
    ValueError | TypeError | OverflowError | KeyError | AttributeError
  | JSONDecodeError | InvalidOperation | DecodeError | ClientError | FileNotFoundError

datatype 'f pyval =
    PNone
  | PBool bool
  | PInt int
  | PFloat 'f
  | PStr string
  | PList "'f pyval list"
  | PDict "(string \<times> 'f pyval) list"

type_synonym 'f pydict = "(string \<times> 'f pyval) list"

record ('f, 'd) pylib =
  flt_lit :: "int \<Rightarrow> nat \<Rightarrow> 'f"
    \<comment> \<open>the float literal with mantissa \<open>m\<close> and \<open>k\<close> decimal places, \<open>m / 10 ^ k\<close>\<close>
  flt_of_int :: "int \<Rightarrow> 'f option"
    \<comment> \<open>\<^verbatim>\<open>float(i)\<close>; \<open>None\<close> when it raises OverflowError\<close>
  flt_of_str :: "string \<Rightarrow> 'f option"
    \<comment> \<open>\<^verbatim>\<open>float(s)\<close>; \<open>None\<close> when it raises ValueError\<close>
  flt_add :: "'f \<Rightarrow> 'f \<Rightarrow> 'f"
  flt_mul :: "'f \<Rightarrow> 'f \<Rightarrow> 'f"
  flt_round2 :: "'f \<Rightarrow> 'f"
    \<comment> \<open>\<^verbatim>\<open>round(x, 2)\<close>\<close>
  flt_nonzero :: "'f \<Rightarrow> bool"
    \<comment> \<open>\<^verbatim>\<open>bool(x)\<close>\<close>
  int_of_flt :: "'f \<Rightarrow> error + int"
    \<comment> \<open>\<^verbatim>\<open>int(x)\<close>; raises on infinities and NaN\<close>
  int_of_str :: "string \<Rightarrow> int option"
    \<comment> \<open>\<^verbatim>\<open>int(s)\<close>; \<open>None\<close> when it raises ValueError\<close>
  py_str :: "'f pyval \<Rightarrow> string"
    \<comment> \<open>\<^verbatim>\<open>str(v)\<close>, also the text an f-string inserts\<close>
  decimal_of_str :: "string \<Rightarrow> 'd option"
    \<comment> \<open>\<^verbatim>\<open>Decimal(s)\<close>; \<open>None\<close> when it raises InvalidOperation\<close>
  json_loads :: "string \<Rightarrow> 'f pyval option"
    \<comment> \<open>\<^verbatim>\<open>json.loads(s)\<close>; \<open>None\<close> when it raises JSONDecodeError\<close>
  json_dumps :: "'f pyval \<Rightarrow> string"
  b64decode_utf8 :: "string \<Rightarrow> string option"
    \<comment> \<open>\<^verbatim>\<open>base64.b64decode(s).decode('utf-8')\<close>; \<open>None\<close> when either step raises\<close>

subsection \<open>Dictionaries\<close>

definition dict_in :: "string \<Rightarrow> 'f pydict \<Rightarrow> bool" where
  "dict_in k d = (map_of d k \<noteq> None)"

definition dict_get :: "'f pydict \<Rightarrow> string \<Rightarrow> 'f pyval \<Rightarrow> 'f pyval" where
  \<comment> \<open>\<^verbatim>\<open>d.get(k, default)\<close>\<close>
  "dict_get d k dflt = (case map_of d k of None \<Rightarrow> dflt | Some v \<Rightarrow> v)"

definition dict_item :: "'f pydict \<Rightarrow> string \<Rightarrow> error + 'f pyval" where
  \<comment> \<open>\<^verbatim>\<open>d[k]\<close>\<close>
  "dict_item d k = (case map_of d k of None \<Rightarrow> Inl KeyError | Some v \<Rightarrow> Inr v)"

fun dict_set :: "'f pydict \<Rightarrow> string \<Rightarrow> 'f pyval \<Rightarrow> 'f pydict" where
  \<comment> \<open>\<^verbatim>\<open>d[k] = v\<close>: a present key keeps its place, a new one goes last\<close>
  "dict_set [] k v = [(k, v)]"
| "dict_set (p # ps) k v = (if fst p = k then (k, v) # ps else p # dict_set ps k v)"

definition setdefault :: "'f pydict \<Rightarrow> string \<Rightarrow> 'f pyval \<Rightarrow> 'f pydict" where
  \<comment> \<open>\<^verbatim>\<open>d.setdefault(k, v)\<close>\<close>
  "setdefault d k v = (if dict_in k d then d else dict_set d k v)"

subsection \<open>Builtins\<close>

fun py_float :: "('f, 'd) pylib \<Rightarrow> 'f pyval \<Rightarrow> error + 'f" where
  \<comment> \<open>\<^verbatim>\<open>float(v)\<close>\<close>
  "py_float L PNone = Inl TypeError"
| "py_float L (PBool b) =
     (case flt_of_int L (if b then 1 else 0) of None \<Rightarrow> Inl OverflowError | Some x \<Rightarrow> Inr x)"
| "py_float L (PInt i) =
     (case flt_of_int L i of None \<Rightarrow> Inl OverflowError | Some x \<Rightarrow> Inr x)"
| "py_float L (PFloat x) = Inr x"
| "py_float L (PStr s) =
     (case flt_of_str L s of None \<Rightarrow> Inl ValueError | Some x \<Rightarrow> Inr x)"
| "py_float L (PList xs) = Inl TypeError"
| "py_float L (PDict kvs) = Inl TypeError"

fun py_int :: "('f, 'd) pylib \<Rightarrow> 'f pyval \<Rightarrow> error + int" where
  \<comment> \<open>\<^verbatim>\<open>int(v)\<close>\<close>
  "py_int L PNone = Inl TypeError"
| "py_int L (PBool b) = Inr (if b then 1 else 0)"
| "py_int L (PInt i) = Inr i"
| "py_int L (PFloat x) = int_of_flt L x"
| "py_int L (PStr s) = (case int_of_str L s of None \<Rightarrow> Inl ValueError | Some i \<Rightarrow> Inr i)"
| "py_int L (PList xs) = Inl TypeError"
| "py_int L (PDict kvs) = Inl TypeError"

fun truthy :: "('f, 'd) pylib \<Rightarrow> 'f pyval \<Rightarrow> bool" where
  \<comment> \<open>\<^verbatim>\<open>bool(v)\<close>\<close>
  "truthy L PNone = False"
| "truthy L (PBool b) = b"
| "truthy L (PInt i) = (i \<noteq> 0)"
| "truthy L (PFloat x) = flt_nonzero L x"
| "truthy L (PStr s) = (s \<noteq> [])"
| "truthy L (PList xs) = (xs \<noteq> [])"
| "truthy L (PDict kvs) = (kvs \<noteq> [])"

fun is_substring :: "string \<Rightarrow> string \<Rightarrow> bool" where
  "is_substring p [] = (p = [])"
| "is_substring p (c # cs) = (if prefix p (c # cs) then True else is_substring p cs)"

fun str_in :: "string \<Rightarrow> 'f pyval \<Rightarrow> error + bool" where
  \<comment> \<open>\<^verbatim>\<open>s in v\<close> for a string \<open>s\<close>: substring of a string, element of a list, key of a
      dictionary, TypeError on a value that is not a container\<close>
  "str_in p (PStr s) = Inr (is_substring p s)"
| "str_in p (PList xs) = Inr (PStr p \<in> set xs)"
| "str_in p (PDict kvs) = Inr (map_of kvs p \<noteq> None)"
| "str_in p PNone = Inl TypeError"
| "str_in p (PBool b) = Inl TypeError"
| "str_in p (PInt i) = Inl TypeError"
| "str_in p (PFloat x) = Inl TypeError"

fun str_of_nat :: "nat \<Rightarrow> string" where
  "str_of_nat n =
     (if n < 10 then [''0123456789'' ! n]
      else str_of_nat (n div 10) @ [''0123456789'' ! (n mod 10)])"

declare str_of_nat.simps [simp del]

section \<open>Fare and persistence stage: \<^verbatim>\<open>process_and_store.py\<close>\<close>

definition calculate_fare :: "('f, 'd) pylib \<Rightarrow> 'f pyval \<Rightarrow> 'f pyval \<Rightarrow> error + 'f" where
  "calculate_fare L distance_km zone_name =
     (case (case py_float L distance_km of
              Inr x \<Rightarrow> Inr x
            | Inl e \<Rightarrow> if e = ValueError then Inr (flt_lit L 0 1)
                       else if e = TypeError then Inr (flt_lit L 0 1)
                       else Inl e) of
        Inl e \<Rightarrow> Inl e
      | Inr distance \<Rightarrow>
          (let base_fare = flt_lit L 500 1;
               rate_per_km = flt_lit L 185 1;
               fare = flt_add L base_fare (flt_mul L distance rate_per_km)
           in case (if truthy L zone_name then str_in ''Airport'' zone_name else Inr False) of
                Inl e \<Rightarrow> Inl e
              | Inr airport \<Rightarrow>
                  Inr (flt_round2 L (if airport then flt_add L fare (flt_lit L 1000 1) else fare))))"

definition floats_to_decimal_value :: "('f, 'd) pylib \<Rightarrow> 'f pyval \<Rightarrow> error + 'd" where
  \<comment> \<open>\<^verbatim>\<open>Decimal(str(v))\<close>\<close>
  "floats_to_decimal_value L v =
     (case decimal_of_str L (py_str L v) of None \<Rightarrow> Inl InvalidOperation | Some d \<Rightarrow> Inr d)"

definition required_fields :: "string list" where
  "required_fields =
     [''trip_id'', ''taxi_id'', ''pickup_datetime'', ''pickup_lat'',
      ''pickup_long'', ''drop_lat'', ''drop_long'', ''distance_km'']"

definition numeric_fields :: "string list" where
  "numeric_fields = [''pickup_lat'', ''pickup_long'', ''drop_lat'', ''drop_long'', ''distance_km'']"

fun join :: "string \<Rightarrow> string list \<Rightarrow> string" where
  \<comment> \<open>\<^verbatim>\<open>sep.join(xs)\<close>\<close>
  "join sep [] = []"
| "join sep [x] = x"
| "join sep (x # y # ys) = x @ sep @ join sep (y # ys)"

definition repr_names :: "string list \<Rightarrow> string" where
  \<comment> \<open>\<^verbatim>\<open>repr\<close> of a list of strings that hold no quote, backslash or control character,
      as the field names are: \<^verbatim>\<open>['a', 'b']\<close>\<close>
  "repr_names xs = ''['' @ join '', '' (map (\<lambda>s. [CHR 0x27] @ s @ [CHR 0x27]) xs) @ '']''"

definition missing_fields :: "'f pydict \<Rightarrow> string list" where
  "missing_fields trip_data =
     filter (\<lambda>field. if dict_in field trip_data then dict_item trip_data field = Inr PNone else True)
       required_fields"

fun check_numeric :: "('f, 'd) pylib \<Rightarrow> 'f pydict \<Rightarrow> string list \<Rightarrow> error + bool \<times> string" where
  "check_numeric L trip_data [] = Inr (True, ''Valid'')"
| "check_numeric L trip_data (field # rest) =
     (case dict_item trip_data field of
        Inl e \<Rightarrow> Inl e
      | Inr v \<Rightarrow>
          (case py_float L v of
             Inr x \<Rightarrow> check_numeric L trip_data rest
           | Inl e \<Rightarrow>
               if e = ValueError \<or> e = TypeError
               then Inr (False, ''Invalid numeric value for '' @ field @ '': '' @ py_str L v)
               else Inl e))"

definition validate_trip_data :: "('f, 'd) pylib \<Rightarrow> 'f pydict \<Rightarrow> error + bool \<times> string" where
  "validate_trip_data L trip_data =
     (if missing_fields trip_data \<noteq> []
      then Inr (False, ''Missing required fields: '' @ repr_names (missing_fields trip_data))
      else check_numeric L trip_data numeric_fields)"

subsection \<open>The handler's steps on one record\<close>

definition ebind :: "error + 'a \<Rightarrow> ('a \<Rightarrow> error + 'b) \<Rightarrow> error + 'b" where
  \<comment> \<open>sequencing: an exception raised by the first step skips the rest\<close>
  "ebind m f = (case m of Inl e \<Rightarrow> Inl e | Inr x \<Rightarrow> f x)"

definition apply_defaults :: "('f, 'd) pylib \<Rightarrow> 'f pydict \<Rightarrow> 'f pydict" where
  \<comment> \<open>step 3 of the handler, the five \<^verbatim>\<open>setdefault\<close> calls\<close>
  "apply_defaults L trip_data =
     (let d1 = setdefault trip_data ''passenger_count'' (PInt 0);
          d2 = setdefault d1 ''extra_charges'' (PFloat (flt_lit L 0 1));
          d3 = setdefault d2 ''tip_amount'' (PFloat (flt_lit L 0 1));
          d4 = setdefault d3 ''tolls_amount'' (PFloat (flt_lit L 0 1))
      in setdefault d4 ''payment_type'' (PStr ''CASH''))"

definition total_amount_of :: "('f, 'd) pylib \<Rightarrow> 'f \<Rightarrow> 'f pydict \<Rightarrow> error + 'f" where
  \<comment> \<open>the sum of the handler's total, before rounding\<close>
  "total_amount_of L fare trip_data =
     (case py_float L (dict_get trip_data ''extra_charges'' (PFloat (flt_lit L 0 1))) of
        Inl e \<Rightarrow> Inl e
      | Inr extra \<Rightarrow>
     (case py_float L (dict_get trip_data ''tip_amount'' (PFloat (flt_lit L 0 1))) of
        Inl e \<Rightarrow> Inl e
      | Inr tip \<Rightarrow>
     (case py_float L (dict_get trip_data ''tolls_amount'' (PFloat (flt_lit L 0 1))) of
        Inl e \<Rightarrow> Inl e
      | Inr tolls \<Rightarrow> Inr (flt_add L (flt_add L (flt_add L fare extra) tip) tolls))))"

datatype ('f, 'd) attr = AVal "'f pyval" | ADec 'd | AInt int

type_synonym ('f, 'd) item = "(string \<times> ('f, 'd) attr) list"

fun in_order :: "(string \<times> (error + 'a)) list \<Rightarrow> error + (string \<times> 'a) list" where
  \<comment> \<open>a dictionary display: the values are computed in the order they are written, and
      the first exception ends it\<close>
  "in_order [] = Inr []"
| "in_order ((k, Inl e) # rest) = Inl e"
| "in_order ((k, Inr v) # rest) =
     (case in_order rest of Inl e \<Rightarrow> Inl e | Inr kvs \<Rightarrow> Inr ((k, v) # kvs))"

definition decimal_field :: "('f, 'd) pylib \<Rightarrow> 'f pydict \<Rightarrow> string \<Rightarrow> error + ('f, 'd) attr" where
  \<comment> \<open>\<^verbatim>\<open>Decimal(str(trip_data.get(k, 0.0)))\<close>\<close>
  "decimal_field L trip_data k =
     map_sum id ADec (floats_to_decimal_value L (dict_get trip_data k (PFloat (flt_lit L 0 1))))"

definition dynamodb_item :: "('f, 'd) pylib \<Rightarrow> 'f pydict \<Rightarrow> 'f \<Rightarrow> error + ('f, 'd) item" where
  \<comment> \<open>step 4: the item\<close>
  "dynamodb_item L trip_data fare =
     in_order
       [(''trip_id'', map_sum id AVal (dict_item trip_data ''trip_id'')),
        (''taxi_id'', Inr (AVal (dict_get trip_data ''taxi_id'' (PStr [])))),
        (''pickup_datetime'', Inr (AVal (dict_get trip_data ''pickup_datetime'' (PStr [])))),
        (''pickup_lat'', decimal_field L trip_data ''pickup_lat''),
        (''pickup_long'', decimal_field L trip_data ''pickup_long''),
        (''drop_lat'', decimal_field L trip_data ''drop_lat''),
        (''drop_long'', decimal_field L trip_data ''drop_long''),
        (''distance_km'', decimal_field L trip_data ''distance_km''),
        (''zone_name'', Inr (AVal (dict_get trip_data ''zone_name'' (PStr [])))),
        (''fare_amount'', map_sum id ADec (floats_to_decimal_value L (PFloat fare))),
        (''passenger_count'',
           map_sum id AInt (py_int L (dict_get trip_data ''passenger_count'' (PInt 0)))),
        (''extra_charges'', decimal_field L trip_data ''extra_charges''),
        (''tip_amount'', decimal_field L trip_data ''tip_amount''),
        (''tolls_amount'', decimal_field L trip_data ''tolls_amount''),
        (''total_amount'', decimal_field L trip_data ''total_amount''),
        (''payment_type'', Inr (AVal (dict_get trip_data ''payment_type'' (PStr ''CASH''))))]"

definition set_totals :: "('f, 'd) pylib \<Rightarrow> 'f \<Rightarrow> 'f pydict \<Rightarrow> error + 'f pydict" where
  \<comment> \<open>step 3: the defaults, then the total\<close>
  "set_totals L fare trip_data =
     (case total_amount_of L fare (apply_defaults L trip_data) of
        Inl e \<Rightarrow> Inl e
      | Inr total_amount \<Rightarrow>
          Inr (dict_set (apply_defaults L trip_data) ''total_amount''
                 (PFloat (flt_round2 L total_amount))))"

definition finalize_trip ::
  "('f, 'd) pylib \<Rightarrow> 'f pydict \<Rightarrow> error + 'f pydict \<times> ('f, 'd) item" where
  \<comment> \<open>steps 2 to 4: the fare, the defaults, the total and the item\<close>
  "finalize_trip L trip_data =
     (case calculate_fare L (dict_get trip_data ''distance_km'' PNone)
             (dict_get trip_data ''zone_name'' PNone) of
        Inl e \<Rightarrow> Inl e
      | Inr fare \<Rightarrow>
     (case set_totals L fare (dict_set trip_data ''fare_amount'' (PFloat fare)) of
        Inl e \<Rightarrow> Inl e
      | Inr trip_data' \<Rightarrow>
     (case dynamodb_item L trip_data' fare of
        Inl e \<Rightarrow> Inl e
      | Inr item \<Rightarrow> Inr (trip_data', item))))"

definition firehose_data :: "'f pydict \<Rightarrow> 'f pydict" where
  \<comment> \<open>step 6: the copy sent to Firehose, with the fields of the Redshift schema\<close>
  "firehose_data trip_data =
     (let f1 = setdefault trip_data ''dropoff_datetime'' PNone;
          f2 = setdefault f1 ''pickup_latitude'' (dict_get trip_data ''pickup_lat'' PNone);
          f3 = setdefault f2 ''pickup_longitude'' (dict_get trip_data ''pickup_long'' PNone);
          f4 = setdefault f3 ''dropoff_latitude'' (dict_get trip_data ''drop_lat'' PNone)
      in setdefault f4 ''dropoff_longitude'' (dict_get trip_data ''drop_long'' PNone))"

definition firehose_payload :: "('f, 'd) pylib \<Rightarrow> 'f pydict \<Rightarrow> string" where
  "firehose_payload L trip_data = json_dumps L (PDict (firehose_data trip_data)) @ [CHR 0x0A]"

subsection \<open>The two stores and the handler\<close>

text \<open>
  The DynamoDB table and the Firehose stream are the lists of what was written to them,
  in order. Whether a call to one of them raises is for the service to decide: the
  environment holds one function for each, which sees the stores as they are at the call.
\<close>

record ('f, 'd) stores =
  table :: "('f, 'd) item list"
  firehose :: "string list"

record ('f, 'd) store_env =
  DYNAMODB_TABLE_NAME :: "string option"
  FIREHOSE_STREAM_NAME :: "string option"
  put_item_raises :: "('f, 'd) stores \<Rightarrow> ('f, 'd) item \<Rightarrow> bool"
  put_record_raises :: "('f, 'd) stores \<Rightarrow> string \<Rightarrow> bool"

record sqs_record =
  body :: "string option"

datatype outcome = Completed | Rejected string | Raised error

definition is_set :: "string option \<Rightarrow> bool" where
  \<comment> \<open>truth of an environment variable: set and not empty\<close>
  "is_set v = (case v of None \<Rightarrow> False | Some s \<Rightarrow> s \<noteq> [])"

definition process_record ::
  "('f, 'd) pylib \<Rightarrow> ('f, 'd) store_env \<Rightarrow> ('f, 'd) stores \<Rightarrow> sqs_record
     \<Rightarrow> outcome \<times> ('f, 'd) stores" where
  \<comment> \<open>the body of the handler's loop up to its \<^verbatim>\<open>except\<close> clauses\<close>
  "process_record L E w record =
     (case body record of
        None \<Rightarrow> (Raised KeyError, w)
      | Some message_body \<Rightarrow>
     (case json_loads L message_body of
        None \<Rightarrow> (Raised JSONDecodeError, w)
      | Some (PDict trip_data) \<Rightarrow>
          (case validate_trip_data L trip_data of
             Inl e \<Rightarrow> (Raised e, w)
           | Inr (is_valid, validation_msg) \<Rightarrow>
               if is_valid then
                 (case finalize_trip L trip_data of
                    Inl e \<Rightarrow> (Raised e, w)
                  | Inr (trip_data', item) \<Rightarrow>
                      if put_item_raises E w item then (Raised ClientError, w)
                      else (let w1 = w\<lparr>table := table w @ [item]\<rparr>;
                                payload = firehose_payload L trip_data'
                            in if put_record_raises E w1 payload then (Raised ClientError, w1)
                               else (Completed, w1\<lparr>firehose := firehose w1 @ [payload]\<rparr>)))
               else (Rejected validation_msg, w))
      | Some other \<Rightarrow> (Raised AttributeError, w)))"

fun process_records ::
  "('f, 'd) pylib \<Rightarrow> ('f, 'd) store_env \<Rightarrow> nat \<times> nat \<times> ('f, 'd) stores \<Rightarrow> sqs_record list
     \<Rightarrow> nat \<times> nat \<times> ('f, 'd) stores" where
  \<comment> \<open>the loop: \<open>(processed_count, failed_count, stores)\<close>\<close>
  "process_records L E acc [] = acc"
| "process_records L E (processed_count, failed_count, w) (record # records) =
     (case process_record L E w record of
        (Completed, w') \<Rightarrow> process_records L E (processed_count + 1, failed_count, w') records
      | (Rejected msg, w') \<Rightarrow> process_records L E (processed_count, failed_count + 1, w') records
      | (Raised e, w') \<Rightarrow> process_records L E (processed_count, failed_count + 1, w') records)"

record response =
  statusCode :: nat
  response_body :: "string option"

record sqs_event =
  Records :: "sqs_record list option"

definition summary :: "('f, 'd) pylib \<Rightarrow> nat \<Rightarrow> nat \<Rightarrow> nat \<Rightarrow> string" where
  "summary L processed_count failed_count n =
     json_dumps L (PDict
       [(''message'', PStr (''Successfully processed '' @ str_of_nat processed_count
                              @ '' records from SQS'')),
        (''processed'', PInt (int processed_count)),
        (''failed'', PInt (int failed_count)),
        (''total'', PInt (int n))])"

definition lambda_handler ::
  "('f, 'd) pylib \<Rightarrow> ('f, 'd) store_env \<Rightarrow> ('f, 'd) stores \<Rightarrow> sqs_event
     \<Rightarrow> (error + response) \<times> ('f, 'd) stores" where
  "lambda_handler L E w event =
     (if is_set (DYNAMODB_TABLE_NAME E) \<and> is_set (FIREHOSE_STREAM_NAME E) then
        (case Records event of
           None \<Rightarrow> (Inl KeyError, w)
         | Some records \<Rightarrow>
             (case process_records L E (0, 0, w) records of
                (processed_count, failed_count, w') \<Rightarrow>
                  (Inr \<lparr>statusCode = 200,
                        response_body =
                          Some (summary L processed_count failed_count (length records))\<rparr>, w')))
      else
        (Inr \<lparr>statusCode = 500,
              response_body = Some (json_dumps L (PStr
                (''Error: Environment variables DYNAMODB_TABLE_NAME and ''
                 @ ''FIREHOSE_STREAM_NAME must be set.'')))\<rparr>, w))"

section \<open>Enrichment stage: \<^verbatim>\<open>enrich_trip_data.py\<close>\<close>

text \<open>
  The location service and the queue are, like the stores above, the lists of the calls
  made to them. A response of the location service is the list of the labels of its
  \<^verbatim>\<open>Results\<close>, best match first.
\<close>

record 'f place_query =
  IndexName :: string
  Position :: "'f list"
  MaxResults :: nat

record 'f enrich_world =
  location_calls :: "'f place_query list"
  queue :: "string list"

record 'f enrich_env =
  PLACE_INDEX_NAME :: "string option"
  SQS_QUEUE_URL :: "string option"
  search_place_index_for_position :: "'f enrich_world \<Rightarrow> 'f place_query \<Rightarrow> error + string list"
  send_message_raises :: "'f enrich_world \<Rightarrow> string \<Rightarrow> bool"

record kinesis_event_record =
  kinesis_data :: "string option"

record kinesis_event =
  KinesisRecords :: "kinesis_event_record list option"

definition enrich_record ::
  "('f, 'd) pylib \<Rightarrow> 'f enrich_env \<Rightarrow> string \<Rightarrow> 'f enrich_world \<Rightarrow> kinesis_event_record
     \<Rightarrow> outcome \<times> 'f enrich_world" where
  \<comment> \<open>the body of the handler's loop up to its \<^verbatim>\<open>except\<close> clauses\<close>
  "enrich_record L E index_name w record =
     (case kinesis_data record of
        None \<Rightarrow> (Raised KeyError, w)
      | Some data \<Rightarrow>
     (case b64decode_utf8 L data of
        None \<Rightarrow> (Raised DecodeError, w)
      | Some payload_data \<Rightarrow>
     (case json_loads L payload_data of
        None \<Rightarrow> (Raised JSONDecodeError, w)
      | Some (PDict trip_data) \<Rightarrow>
          (case ebind (dict_item trip_data ''longitude'') (py_float L) of
             Inl e \<Rightarrow> (Raised e, w)
           | Inr longitude \<Rightarrow>
          (case ebind (dict_item trip_data ''latitude'') (py_float L) of
             Inl e \<Rightarrow> (Raised e, w)
           | Inr latitude \<Rightarrow>
              (let q = \<lparr>IndexName = index_name, Position = [longitude, latitude], MaxResults = 1\<rparr>;
                   w1 = w\<lparr>location_calls := location_calls w @ [q]\<rparr>
               in case search_place_index_for_position E w q of
                    Inl e \<Rightarrow> (Raised e, w1)
                  | Inr results \<Rightarrow>
                      (let zone_name = (case results of [] \<Rightarrow> ''Unknown'' | label # others \<Rightarrow> label);
                           message_body =
                             json_dumps L (PDict (dict_set trip_data ''zone_name'' (PStr zone_name)))
                       in if send_message_raises E w1 message_body then (Raised ClientError, w1)
                          else (Completed, w1\<lparr>queue := queue w1 @ [message_body]\<rparr>)))))
      | Some other \<Rightarrow> (Raised AttributeError, w))))"

fun enrich_records ::
  "('f, 'd) pylib \<Rightarrow> 'f enrich_env \<Rightarrow> string \<Rightarrow> 'f enrich_world \<Rightarrow> kinesis_event_record list
     \<Rightarrow> 'f enrich_world" where
  "enrich_records L E index_name w [] = w"
| "enrich_records L E index_name w (record # records) =
     enrich_records L E index_name (snd (enrich_record L E index_name w record)) records"

definition lambda_handler_enrich ::
  "('f, 'd) pylib \<Rightarrow> 'f enrich_env \<Rightarrow> 'f enrich_world \<Rightarrow> kinesis_event
     \<Rightarrow> (error + response) \<times> 'f enrich_world" where
  \<comment> \<open>\<^verbatim>\<open>lambda_handler\<close> of \<^verbatim>\<open>enrich_trip_data.py\<close>\<close>
  "lambda_handler_enrich L E w event =
     (if is_set (PLACE_INDEX_NAME E) \<and> is_set (SQS_QUEUE_URL E) then
        (case KinesisRecords event of
           None \<Rightarrow> (Inl KeyError, w)
         | Some records \<Rightarrow>
             (Inr \<lparr>statusCode = 200,
                   response_body = Some (json_dumps L (PStr
                     (''Successfully processed '' @ str_of_nat (length records)
                      @ '' records and sent to SQS.'')))\<rparr>,
              enrich_records L E (case PLACE_INDEX_NAME E of None \<Rightarrow> [] | Some n \<Rightarrow> n) w records))
      else (Inr \<lparr>statusCode = 500, response_body = None\<rparr>, w))"

section \<open>Producer: \<^verbatim>\<open>producer.py\<close>\<close>

text \<open>
  A row of \<^verbatim>\<open>csv.DictReader\<close> is a dictionary from the names of the header to the
  fields of the line: strings, and \<^verbatim>\<open>None\<close> for the names a short line has no field
  for. The file is the list of its rows, or \<open>None\<close> when it does not exist.
\<close>

definition is_space :: "char \<Rightarrow> bool" where
  \<comment> \<open>the ASCII characters \<^verbatim>\<open>str.strip()\<close> removes\<close>
  "is_space c =
     (c \<in> set [CHR 0x09, CHR 0x0A, CHR 0x0B, CHR 0x0C, CHR 0x0D,
                CHR 0x1C, CHR 0x1D, CHR 0x1E, CHR 0x1F, CHR 0x20])"

definition strip_with :: "(char \<Rightarrow> bool) \<Rightarrow> string \<Rightarrow> string" where
  "strip_with P s = rev (dropWhile P (rev (dropWhile P s)))"

fun py_strip :: "(char \<Rightarrow> bool) \<Rightarrow> 'f pyval \<Rightarrow> error + string" where
  \<comment> \<open>\<^verbatim>\<open>v.strip(...)\<close>: only a string has the method\<close>
  "py_strip P (PStr s) = Inr (strip_with P s)"
| "py_strip P v = Inl AttributeError"

record 'f kinesis_record =
  Data :: string
  PartitionKey :: "'f pyval"

record 'f producer_env =
  BATCH_SIZE :: int
  put_records :: "'f kinesis_record list \<Rightarrow> 'f kinesis_record list \<Rightarrow> 'f kinesis_record list option"
    \<comment> \<open>on the stream as it is and a batch: the records the stream took, \<open>None\<close> when the
        call raises\<close>

fun convert_cols :: "('f, 'd) pylib \<Rightarrow> 'f pydict \<Rightarrow> string list \<Rightarrow> error + 'f pydict" where
  "convert_cols L row [] = Inr row"
| "convert_cols L row (col # cols) =
     (case py_float L (dict_get row col (PInt 0)) of
        Inl e \<Rightarrow> Inl e
      | Inr x \<Rightarrow> convert_cols L (dict_set row col (PFloat x)) cols)"

definition set_float :: "('f, 'd) pylib \<Rightarrow> string \<Rightarrow> 'f pyval \<Rightarrow> 'f pydict \<Rightarrow> error + 'f pydict" where
  \<comment> \<open>\<^verbatim>\<open>row[k] = float(v)\<close>\<close>
  "set_float L k v row =
     (case py_float L v of Inl e \<Rightarrow> Inl e | Inr x \<Rightarrow> Inr (dict_set row k (PFloat x)))"

definition convert_row :: "('f, 'd) pylib \<Rightarrow> 'f pydict \<Rightarrow> error + 'f kinesis_record" where
  \<comment> \<open>the loop body after the admission test\<close>
  "convert_row L row0 =
     (case convert_cols L row0
             [''latitude'', ''longitude'', ''pickup_lat'', ''pickup_long'',
              ''drop_lat'', ''drop_long'', ''distance_km''] of
        Inl e \<Rightarrow> Inl e
      | Inr r1 \<Rightarrow>
     (case py_int L (dict_get r1 ''passenger_count'' (PInt 0)) of
        Inl e \<Rightarrow> Inl e
      | Inr n \<Rightarrow>
     (case set_float L ''fare_amount'' (dict_get r1 ''fare_amount'' (PInt 0))
             (dict_set r1 ''passenger_count'' (PInt n)) of
        Inl e \<Rightarrow> Inl e
      | Inr r2 \<Rightarrow>
     (case set_float L ''extra_charges''
             (dict_get r2 ''extra_charges'' (dict_get r2 ''extra'' (PInt 0))) r2 of
        Inl e \<Rightarrow> Inl e
      | Inr r3 \<Rightarrow>
     (case set_float L ''tip_amount'' (dict_get r3 ''tip_amount'' (PInt 0)) r3 of
        Inl e \<Rightarrow> Inl e
      | Inr r4 \<Rightarrow>
     (case set_float L ''tolls_amount'' (dict_get r4 ''tolls_amount'' (PInt 0)) r4 of
        Inl e \<Rightarrow> Inl e
      | Inr r5 \<Rightarrow>
     (case set_float L ''total_amount'' (dict_get r5 ''total_amount'' (PInt 0)) r5 of
        Inl e \<Rightarrow> Inl e
      | Inr r6 \<Rightarrow>
     (case py_strip (\<lambda>c. c = CHR 0x22) (dict_get r6 ''zone_name'' (PStr [])) of
        Inl e \<Rightarrow> Inl e
      | Inr z \<Rightarrow>
     (case dict_item (dict_set r6 ''zone_name'' (PStr z)) ''trip_id'' of
        Inl e \<Rightarrow> Inl e
      | Inr trip_id \<Rightarrow>
          Inr \<lparr>Data = json_dumps L (PDict (dict_set r6 ''zone_name'' (PStr z))),
               PartitionKey = trip_id\<rparr>)))))))))"

definition admit_row :: "('f, 'd) pylib \<Rightarrow> 'f pydict \<Rightarrow> error + 'f kinesis_record option" where
  \<comment> \<open>the whole loop body for one row: \<open>None\<close> when the row is skipped\<close>
  "admit_row L row =
     (if dict_in ''pickup_datetime'' row then
        (case ebind (dict_item row ''pickup_datetime'') (py_strip is_space) of
           Inl e \<Rightarrow> Inl e
         | Inr stripped \<Rightarrow>
             if stripped = [] then Inr None
             else (case convert_row L row of Inl e \<Rightarrow> Inl e | Inr record \<Rightarrow> Inr (Some record)))
      else Inr None)"

definition send_batch ::
  "'f producer_env \<Rightarrow> 'f kinesis_record list \<Rightarrow> 'f kinesis_record list \<Rightarrow> 'f kinesis_record list" where
  \<comment> \<open>\<^verbatim>\<open>_send_batch\<close>: the stream after the call; an exception is caught\<close>
  "send_batch E stream batch =
     (case put_records E stream batch of None \<Rightarrow> stream | Some taken \<Rightarrow> stream @ taken)"

fun send_rows ::
  "('f, 'd) pylib \<Rightarrow> 'f producer_env \<Rightarrow> 'f kinesis_record list \<Rightarrow> 'f kinesis_record list
     \<Rightarrow> 'f pydict list \<Rightarrow> (error + 'f kinesis_record list) \<times> 'f kinesis_record list" where
  \<comment> \<open>the loop over the rows, from a stream and a buffer: the exception that ended it or
      the buffer left, and the stream\<close>
  "send_rows L E stream records_batch [] = (Inr records_batch, stream)"
| "send_rows L E stream records_batch (row # rows) =
     (case admit_row L row of
        Inl e \<Rightarrow> (Inl e, stream)
      | Inr None \<Rightarrow> send_rows L E stream records_batch rows
      | Inr (Some record) \<Rightarrow>
          if BATCH_SIZE E \<le> int (length (records_batch @ [record]))
          then send_rows L E (send_batch E stream (records_batch @ [record])) [] rows
          else send_rows L E stream (records_batch @ [record]) rows)"

definition send_data_in_batches ::
  "('f, 'd) pylib \<Rightarrow> 'f producer_env \<Rightarrow> 'f kinesis_record list \<Rightarrow> 'f pydict list option
     \<Rightarrow> error option \<times> 'f kinesis_record list" where
  \<comment> \<open>the exception the function caught, if any, and the stream when it returns\<close>
  "send_data_in_batches L E stream file =
     (case file of
        None \<Rightarrow> (Some FileNotFoundError, stream)
      | Some rows \<Rightarrow>
          (case send_rows L E stream [] rows of
             (Inl e, stream') \<Rightarrow> (Some e, stream')
           | (Inr records_batch, stream') \<Rightarrow>
               (None, if records_batch = [] then stream' else send_batch E stream' records_batch)))"

section \<open>A library of exact decimals\<close>

text \<open>
  To run the programs on concrete inputs the library is instantiated with exact decimal
  arithmetic: a float is a pair \<open>(m, k)\<close> that stands for \<open>m / 10 ^ k\<close>, kept without
  trailing zeros, so that equal numbers are equal pairs. Sums and products are exact and
  \<^verbatim>\<open>round(x, 2)\<close> rounds half to even. On the inputs used below every intermediate
  result has at most three decimal places. Numerals are read and written in the plain
  form \<^verbatim>\<open>-12.5\<close>; \<^verbatim>\<open>json.loads\<close> and \<^verbatim>\<open>base64.b64decode\<close> are given by finite
  tables of the texts an example uses, and every other text is rejected.
\<close>

type_synonym dec = "int \<times> nat"

fun dec_norm :: "int \<Rightarrow> nat \<Rightarrow> dec" where
  "dec_norm m k =
     (if k = 0 then (m, 0)
      else if m mod 10 = 0 then dec_norm (m div 10) (k - 1)
      else (m, k))"

declare dec_norm.simps [simp del]

definition dec_add :: "dec \<Rightarrow> dec \<Rightarrow> dec" where
  "dec_add a b =
     (let k = max (snd a) (snd b)
      in dec_norm (fst a * 10 ^ (k - snd a) + fst b * 10 ^ (k - snd b)) k)"

definition dec_mul :: "dec \<Rightarrow> dec \<Rightarrow> dec" where
  "dec_mul a b = dec_norm (fst a * fst b) (snd a + snd b)"

definition dec_round2 :: "dec \<Rightarrow> dec" where
  "dec_round2 a =
     (if snd a \<le> 2 then a
      else (let p = 10 ^ (snd a - 2); q = fst a div p; r = fst a mod p
            in dec_norm (if 2 * r < p then q
                         else if p < 2 * r then q + 1
                         else if even q then q else q + 1) 2))"

definition dec_trunc :: "dec \<Rightarrow> int" where
  "dec_trunc a = (if 0 \<le> fst a then fst a div 10 ^ snd a else - ((- fst a) div 10 ^ snd a))"

definition digit_of :: "char \<Rightarrow> nat option" where
  "digit_of = map_of
     [(CHR ''0'', 0), (CHR ''1'', 1), (CHR ''2'', 2), (CHR ''3'', 3), (CHR ''4'', 4),
      (CHR ''5'', 5), (CHR ''6'', 6), (CHR ''7'', 7), (CHR ''8'', 8), (CHR ''9'', 9)]"

fun nat_of_digits :: "nat \<Rightarrow> string \<Rightarrow> nat option" where
  "nat_of_digits acc [] = Some acc"
| "nat_of_digits acc (c # cs) =
     (case digit_of c of None \<Rightarrow> None | Some d \<Rightarrow> nat_of_digits (10 * acc + d) cs)"

definition parse_nat :: "string \<Rightarrow> nat option" where
  "parse_nat s = (if s = [] then None else nat_of_digits 0 s)"

definition parse_int :: "string \<Rightarrow> int option" where
  "parse_int s =
     (if take 1 s = ''-'' then map_option (\<lambda>n. - int n) (parse_nat (drop 1 s))
      else map_option int (parse_nat s))"

definition parse_dec :: "string \<Rightarrow> dec option" where
  "parse_dec s =
     (let neg = (take 1 s = ''-'');
          digits = (if neg then drop 1 s else s);
          ip = takeWhile (\<lambda>c. c \<noteq> CHR ''.'') digits;
          fp = drop 1 (dropWhile (\<lambda>c. c \<noteq> CHR ''.'') digits)
      in case parse_nat ip of
           None \<Rightarrow> None
         | Some i \<Rightarrow>
             if length ip = length digits then Some (if neg then - int i else int i, 0)
             else (case parse_nat fp of
                     None \<Rightarrow> None
                   | Some f \<Rightarrow>
                       (let m = int i * 10 ^ length fp + int f
                        in Some (dec_norm (if neg then - m else m) (length fp)))))"

definition str_of_int :: "int \<Rightarrow> string" where
  "str_of_int i = (if i < 0 then ''-'' @ str_of_nat (nat (- i)) else str_of_nat (nat i))"

definition str_of_dec :: "dec \<Rightarrow> string" where
  "str_of_dec a =
     (if snd a = 0 then str_of_int (fst a) @ ''.0''
      else (let p = 10 ^ snd a;
                ip = nat \<bar>fst a\<bar> div p;
                fp = str_of_nat (nat \<bar>fst a\<bar> mod p)
            in (if fst a < 0 then ''-'' else []) @ str_of_nat ip @ ''.''
               @ replicate (snd a - length fp) (CHR ''0'') @ fp))"

fun repr_dec :: "dec pyval \<Rightarrow> string" where
  "repr_dec PNone = ''None''"
| "repr_dec (PBool b) = (if b then ''True'' else ''False'')"
| "repr_dec (PInt i) = str_of_int i"
| "repr_dec (PFloat x) = str_of_dec x"
| "repr_dec (PStr s) = [CHR 0x27] @ s @ [CHR 0x27]"
| "repr_dec (PList xs) = ''['' @ join '', '' (map repr_dec xs) @ '']''"
| "repr_dec (PDict kvs) =
     ''{'' @ join '', '' (map (\<lambda>kv. [CHR 0x27] @ fst kv @ [CHR 0x27] @ '': '' @ repr_dec (snd kv)) kvs)
     @ ''}''"

definition str_dec :: "dec pyval \<Rightarrow> string" where
  "str_dec v = (case v of PStr s \<Rightarrow> s | other \<Rightarrow> repr_dec v)"

fun dumps_dec :: "dec pyval \<Rightarrow> string" where
  "dumps_dec PNone = ''null''"
| "dumps_dec (PBool b) = (if b then ''true'' else ''false'')"
| "dumps_dec (PInt i) = str_of_int i"
| "dumps_dec (PFloat x) = str_of_dec x"
| "dumps_dec (PStr s) = [CHR 0x22] @ s @ [CHR 0x22]"
| "dumps_dec (PList xs) = ''['' @ join '', '' (map dumps_dec xs) @ '']''"
| "dumps_dec (PDict kvs) =
     ''{'' @ join '', '' (map (\<lambda>kv. [CHR 0x22] @ fst kv @ [CHR 0x22] @ '': '' @ dumps_dec (snd kv)) kvs)
     @ ''}''"

definition decimal_lib ::
  "(string \<times> dec pyval) list \<Rightarrow> (string \<times> string) list \<Rightarrow> (dec, dec) pylib" where
  "decimal_lib json_texts base64_texts =
     \<lparr>flt_lit = dec_norm,
      flt_of_int = (\<lambda>i. Some (i, 0)),
      flt_of_str = parse_dec,
      flt_add = dec_add,
      flt_mul = dec_mul,
      flt_round2 = dec_round2,
      flt_nonzero = (\<lambda>a. fst a \<noteq> 0),
      int_of_flt = (\<lambda>a. Inr (dec_trunc a)),
      int_of_str = parse_int,
      py_str = str_dec,
      decimal_of_str = parse_dec,
      json_loads = map_of json_texts,
      json_dumps = dumps_dec,
      b64decode_utf8 = map_of base64_texts\<rparr>"

section \<open>Example inputs\<close>

text \<open>
  The trip of the end-to-end scenario after enrichment (\<open>T1\<close>), a trip to the airport
  that carries a total from upstream (\<open>T2\<close>), the first trip with an empty identifier
  (\<open>T3\<close>), a message with two fields only (\<open>T4\<close>), and a message of the stream whose
  \<^verbatim>\<open>pickup_*\<close> coordinates differ from its \<^verbatim>\<open>latitude\<close> and \<^verbatim>\<open>longitude\<close> (\<open>T5\<close>).
  Each comes with the JSON text that \<^verbatim>\<open>json.dumps\<close> writes for it.
\<close>

definition trip_T1 :: "dec pydict" where
  "trip_T1 =
     [(''trip_id'', PStr ''T1''), (''taxi_id'', PStr ''TX1''),
      (''pickup_datetime'', PStr ''2024-01-01T10:00:00''),
      (''pickup_lat'', PFloat (129, 1)), (''pickup_long'', PFloat (776, 1)),
      (''drop_lat'', PFloat (1295, 2)), (''drop_long'', PFloat (7765, 2)),
      (''distance_km'', PStr ''8.2''), (''latitude'', PFloat (129, 1)),
      (''longitude'', PFloat (776, 1)), (''zone_name'', PStr ''Downtown Plaza'')]"

definition text_T1 :: string where
  \<open>text_T1 =
         ''{"trip_id": "T1", "taxi_id": "TX1", "pickup_datetime": "2024-01-01T10:''
       @ ''00:00", "pickup_lat": 12.9, "pickup_long": 77.6, "drop_lat": 12.95, "d''
       @ ''rop_long": 77.65, "distance_km": "8.2", "latitude": 12.9, "longitude":''
       @ '' 77.6, "zone_name": "Downtown Plaza"}''\<close>

definition trip_T2 :: "dec pydict" where
  "trip_T2 =
     [(''trip_id'', PStr ''T2''), (''taxi_id'', PStr ''TX2''),
      (''pickup_datetime'', PStr ''2024-01-01T11:30:00''),
      (''pickup_lat'', PFloat (129, 1)), (''pickup_long'', PFloat (776, 1)),
      (''drop_lat'', PFloat (132, 1)), (''drop_long'', PFloat (777, 1)),
      (''distance_km'', PInt 10), (''zone_name'', PStr ''Airport Terminal''),
      (''extra_charges'', PFloat (5, 0)), (''tip_amount'', PFloat (25, 1)),
      (''tolls_amount'', PFloat (125, 2)), (''total_amount'', PFloat (999, 0))]"

definition text_T2 :: string where
  \<open>text_T2 =
         ''{"trip_id": "T2", "taxi_id": "TX2", "pickup_datetime": "2024-01-01T11:''
       @ ''30:00", "pickup_lat": 12.9, "pickup_long": 77.6, "drop_lat": 13.2, "dr''
       @ ''op_long": 77.7, "distance_km": 10, "zone_name": "Airport Terminal", "e''
       @ ''xtra_charges": 5.0, "tip_amount": 2.5, "tolls_amount": 1.25, "total_am''
       @ ''ount": 999.0}''\<close>

definition trip_T3 :: "dec pydict" where
  "trip_T3 =
     [(''trip_id'', PStr []), (''taxi_id'', PStr ''TX1''),
      (''pickup_datetime'', PStr ''2024-01-01T10:00:00''),
      (''pickup_lat'', PFloat (129, 1)), (''pickup_long'', PFloat (776, 1)),
      (''drop_lat'', PFloat (1295, 2)), (''drop_long'', PFloat (7765, 2)),
      (''distance_km'', PStr ''8.2''), (''latitude'', PFloat (129, 1)),
      (''longitude'', PFloat (776, 1)), (''zone_name'', PStr ''Downtown Plaza'')]"

definition text_T3 :: string where
  \<open>text_T3 =
         ''{"trip_id": "", "taxi_id": "TX1", "pickup_datetime": "2024-01-01T10:00''
       @ '':00", "pickup_lat": 12.9, "pickup_long": 77.6, "drop_lat": 12.95, "dro''
       @ ''p_long": 77.65, "distance_km": "8.2", "latitude": 12.9, "longitude": 7''
       @ ''7.6, "zone_name": "Downtown Plaza"}''\<close>

definition trip_T4 :: "dec pydict" where
  "trip_T4 =
     [(''trip_id'', PStr ''T4''), (''taxi_id'', PStr ''TX4'')]"

definition text_T4 :: string where
  \<open>text_T4 =
         ''{"trip_id": "T4", "taxi_id": "TX4"}''\<close>

definition trip_T5 :: "dec pydict" where
  "trip_T5 =
     [(''trip_id'', PStr ''T5''), (''pickup_lat'', PInt 2), (''pickup_long'', PInt 1),
      (''latitude'', PInt 4), (''longitude'', PInt 3)]"

definition text_T5 :: string where
  \<open>text_T5 =
         ''{"trip_id": "T5", "pickup_lat": 2, "pickup_long": 1, "latitude": 4, "l''
       @ ''ongitude": 3}''\<close>
definition base64_T5 :: string where
  \<open>base64_T5 =
         ''eyJ0cmlwX2lkIjogIlQ1IiwgInBpY2t1cF9sYXQiOiAyLCAicGlja3VwX2xvbmciOiAxLC''
       @ ''AibGF0aXR1ZGUiOiA0LCAibG9uZ2l0dWRlIjogM30=''\<close>

definition json_texts :: "(string \<times> dec pyval) list" where
  "json_texts =
     [(text_T1, PDict trip_T1), (text_T2, PDict trip_T2), (text_T3, PDict trip_T3),
      (text_T4, PDict trip_T4), (text_T5, PDict trip_T5)]"

definition base64_texts :: "(string \<times> string) list" where
  "base64_texts = [(base64_T5, text_T5)]"

definition lib :: "(dec, dec) pylib" where
  "lib = decimal_lib json_texts base64_texts"

definition no_stores :: "(dec, dec) stores" where
  "no_stores = \<lparr>table = [], firehose = []\<rparr>"

definition stores_up :: "(dec, dec) store_env" where
  \<comment> \<open>both services take every write\<close>
  "stores_up =
     \<lparr>DYNAMODB_TABLE_NAME = Some ''trips'', FIREHOSE_STREAM_NAME = Some ''trips-analytics'',
      put_item_raises = (\<lambda>w item. False), put_record_raises = (\<lambda>w payload. False)\<rparr>"

definition firehose_down :: "(dec, dec) store_env" where
  \<comment> \<open>the table takes every write, the delivery stream raises on each\<close>
  "firehose_down =
     \<lparr>DYNAMODB_TABLE_NAME = Some ''trips'', FIREHOSE_STREAM_NAME = Some ''trips-analytics'',
      put_item_raises = (\<lambda>w item. False), put_record_raises = (\<lambda>w payload. True)\<rparr>"

definition no_calls :: "dec enrich_world" where
  "no_calls = \<lparr>location_calls = [], queue = []\<rparr>"

definition enrich_up :: "dec enrich_env" where
  \<comment> \<open>the location service finds no place, the queue takes every message\<close>
  "enrich_up =
     \<lparr>PLACE_INDEX_NAME = Some ''places'', SQS_QUEUE_URL = Some ''trips-queue'',
      search_place_index_for_position = (\<lambda>w q. Inr []),
      send_message_raises = (\<lambda>w m. False)\<rparr>"

text \<open>
  Rows of a file with the header \<^verbatim>\<open>trip_id, taxi_id, pickup_datetime, pickup_lat,
  pickup_long, drop_lat, drop_long, distance_km, latitude, longitude\<close>: two full lines,
  and the line \<^verbatim>\<open>T2\<close> that ends after its first field.
\<close>

definition row_T1 :: "dec pydict" where
  "row_T1 =
     [(''trip_id'', PStr ''T1''), (''taxi_id'', PStr ''TX1''),
      (''pickup_datetime'', PStr ''2024-01-01T10:00:00''), (''pickup_lat'', PStr ''12.9''),
      (''pickup_long'', PStr ''77.6''), (''drop_lat'', PStr ''12.95''),
      (''drop_long'', PStr ''77.65''), (''distance_km'', PStr ''8.2''),
      (''latitude'', PStr ''12.9''), (''longitude'', PStr ''77.6'')]"

definition row_T2 :: "dec pydict" where
  "row_T2 =
     [(''trip_id'', PStr ''T2''), (''taxi_id'', PNone), (''pickup_datetime'', PNone),
      (''pickup_lat'', PNone), (''pickup_long'', PNone), (''drop_lat'', PNone),
      (''drop_long'', PNone), (''distance_km'', PNone), (''latitude'', PNone),
      (''longitude'', PNone)]"

definition row_T3 :: "dec pydict" where
  "row_T3 =
     [(''trip_id'', PStr ''T3''), (''taxi_id'', PStr ''TX1''),
      (''pickup_datetime'', PStr ''2024-01-01T10:00:00''), (''pickup_lat'', PStr ''12.9''),
      (''pickup_long'', PStr ''77.6''), (''drop_lat'', PStr ''12.95''),
      (''drop_long'', PStr ''77.65''), (''distance_km'', PStr ''8.2''),
      (''latitude'', PStr ''12.9''), (''longitude'', PStr ''77.6'')]"

definition kinesis_up :: "dec producer_env" where
  \<comment> \<open>the stream takes every record of every batch\<close>
  "kinesis_up = \<lparr>BATCH_SIZE = 100, put_records = (\<lambda>stream batch. Some batch)\<rparr>"

section \<open>Observations on a run\<close>

fun outcomes ::
  "('f, 'd) pylib \<Rightarrow> ('f, 'd) store_env \<Rightarrow> ('f, 'd) stores \<Rightarrow> sqs_record list \<Rightarrow> outcome list" where
  \<comment> \<open>how each record of a batch ended, in the order of the batch\<close>
  "outcomes L E w [] = []"
| "outcomes L E w (record # records) =
     fst (process_record L E w record) # outcomes L E (snd (process_record L E w record)) records"

fun is_rejected :: "outcome \<Rightarrow> bool" where
  "is_rejected (Rejected msg) = True"
| "is_rejected other = False"

section \<open>Properties\<close>

subsection \<open>The fare\<close>

lemma is_substring_iff: "is_substring p s \<longleftrightarrow> (\<exists>pre post. s = pre @ p @ post)"
proof (induction s)
  case Nil
  then show ?case by auto
next
  case (Cons c cs)
  show ?case
  proof
    assume "is_substring p (c # cs)"
    then consider "prefix p (c # cs)" | "is_substring p cs" by (auto split: if_splits)
    then show "\<exists>pre post. c # cs = pre @ p @ post"
    proof cases
      case 1
      then obtain post where "c # cs = p @ post" by (auto simp: prefix_def)
      then have "c # cs = [] @ p @ post" by simp
      then show ?thesis by blast
    next
      case 2
      with Cons.IH obtain pre post where "cs = pre @ p @ post" by blast
      then have "c # cs = (c # pre) @ p @ post" by simp
      then show ?thesis by blast
    qed
  next
    assume "\<exists>pre post. c # cs = pre @ p @ post"
    then obtain pre post where e: "c # cs = pre @ p @ post" by blast
    show "is_substring p (c # cs)"
    proof (cases pre)
      case Nil
      with e have "prefix p (c # cs)" by (simp add: prefix_def)
      then show ?thesis by simp
    next
      case (Cons a pre')
      with e have "cs = pre' @ p @ post" by simp
      with Cons.IH have "is_substring p cs" by blast
      then show ?thesis by simp
    qed
  qed
qed

lemma py_float_errors:
  "py_float L v = Inl e \<Longrightarrow> e = TypeError \<or> e = ValueError \<or> e = OverflowError"
  by (cases v) (auto split: option.splits)

text \<open>
  Claim C1, as the code has it. For a \<^verbatim>\<open>zone_name\<close> that is \<^verbatim>\<open>None\<close> or a string, and a
  \<^verbatim>\<open>distance_km\<close> whose conversion does not overflow, \<^verbatim>\<open>calculate_fare\<close> raises
  nothing and returns \<^verbatim>\<open>round(50.0 + d * 18.5, 2)\<close>, with \<^verbatim>\<open>100.0\<close> added before the
  rounding exactly when \<^verbatim>\<open>zone_name\<close> is a string with the substring \<^verbatim>\<open>Airport\<close>; \<open>d\<close> is
  \<^verbatim>\<open>float(distance_km)\<close>, or \<^verbatim>\<open>0.0\<close> when that raises ValueError or TypeError. With
  exact decimals, distance 10 to \<^verbatim>\<open>Airport Terminal\<close> costs 335.0 and distance 0 to
  \<^verbatim>\<open>Downtown\<close> costs 50.0.
\<close>

theorem calculate_fare_formula:
  assumes zone: "zone_name = PNone \<or> (\<exists>s. zone_name = PStr s)"
      and conv: "py_float L distance_km \<noteq> Inl OverflowError"
  shows "calculate_fare L distance_km zone_name =
           Inr (flt_round2 L
             (let d = (case py_float L distance_km of Inr x \<Rightarrow> x | Inl e \<Rightarrow> flt_lit L 0 1);
                  fare = flt_add L (flt_lit L 500 1) (flt_mul L d (flt_lit L 185 1))
              in if (\<exists>pre post. zone_name = PStr (pre @ ''Airport'' @ post))
                 then flt_add L fare (flt_lit L 1000 1) else fare))
         \<and> calculate_fare (lib) (PInt 10) (PStr ''Airport Terminal'')
             = Inr (flt_lit (lib) 3350 1)
         \<and> calculate_fare (lib) (PInt 0) (PStr ''Downtown'')
             = Inr (flt_lit (lib) 500 1)"
proof (intro conjI)
  show "calculate_fare (lib) (PInt 10) (PStr ''Airport Terminal'')
          = Inr (flt_lit (lib) 3350 1)"
    by code_simp
  show "calculate_fare (lib) (PInt 0) (PStr ''Downtown'')
          = Inr (flt_lit (lib) 500 1)"
    by code_simp
  from zone show "calculate_fare L distance_km zone_name =
           Inr (flt_round2 L
             (let d = (case py_float L distance_km of Inr x \<Rightarrow> x | Inl e \<Rightarrow> flt_lit L 0 1);
                  fare = flt_add L (flt_lit L 500 1) (flt_mul L d (flt_lit L 185 1))
              in if (\<exists>pre post. zone_name = PStr (pre @ ''Airport'' @ post))
                 then flt_add L fare (flt_lit L 1000 1) else fare))"
  proof
    assume "zone_name = PNone"
    with conv show ?thesis
      using py_float_errors [of L distance_km]
      by (cases "py_float L distance_km") (auto simp: calculate_fare_def Let_def)
  next
    assume "\<exists>s. zone_name = PStr s"
    then obtain s where s: "zone_name = PStr s" by blast
    have sub: "(\<exists>pre post. zone_name = PStr (pre @ ''Airport'' @ post)) = is_substring ''Airport'' s"
      using s by (simp add: is_substring_iff)
    have empty: "s = [] \<Longrightarrow> \<not> is_substring ''Airport'' s" by simp
    from conv show ?thesis
      using py_float_errors [of L distance_km] empty
      unfolding sub
      by (cases "py_float L distance_km") (auto simp: calculate_fare_def Let_def s)
  qed
qed


text \<open>The theorem at a distance that is not a number.\<close>

theorem calculate_fare_formula_witness:
  "calculate_fare (lib) (PStr ''abc'') (PStr ''City Airport'') =
           Inr (flt_round2 (lib)
             (let d = (case py_float (lib) (PStr ''abc'') of Inr x \<Rightarrow> x
                       | Inl e \<Rightarrow> flt_lit (lib) 0 1);
                  fare = flt_add (lib) (flt_lit (lib) 500 1)
                           (flt_mul (lib) d (flt_lit (lib) 185 1))
              in if (\<exists>pre post. (PStr ''City Airport'' :: dec pyval) = PStr (pre @ ''Airport'' @ post))
                 then flt_add (lib) fare (flt_lit (lib) 1000 1) else fare))
   \<and> calculate_fare (lib) (PStr ''abc'') (PStr ''City Airport'') = Inr (150, 0)"
proof -
  have z: "PStr ''City Airport'' = PNone \<or> (\<exists>s. PStr ''City Airport'' = (PStr s :: dec pyval))"
    by simp
  have c: "py_float (lib) (PStr ''abc'') \<noteq> Inl OverflowError"
    by code_simp
  have v: "calculate_fare (lib) (PStr ''abc'') (PStr ''City Airport'') = Inr (150, 0)"
    by code_simp
  from calculate_fare_formula [OF z c] v show ?thesis by blast
qed

text \<open>
  The claim as the specification states it, for every input, fails: a \<^verbatim>\<open>zone_name\<close>
  that is a number other than zero makes \<^verbatim>\<open>'Airport' in zone_name\<close> raise TypeError.
\<close>

theorem calculate_fare_counterexample:
  "calculate_fare (lib) (PInt 10) (PInt 5) = Inl TypeError"
  by code_simp

subsection \<open>Dictionaries\<close>

lemma map_of_dict_set: "map_of (dict_set d k v) = (map_of d)(k \<mapsto> v)"
  by (induction d) (auto simp: fun_eq_iff)

lemma dict_set_absent: "map_of d k = None \<Longrightarrow> dict_set d k v = d @ [(k, v)]"
  by (induction d) (auto split: if_splits)

lemma map_of_setdefault:
  "map_of (setdefault d k v) = (if map_of d k = None then (map_of d)(k \<mapsto> v) else map_of d)"
  by (simp add: setdefault_def dict_in_def map_of_dict_set)

lemma setdefault_present: "map_of d k \<noteq> None \<Longrightarrow> setdefault d k v = d"
  by (simp add: setdefault_def dict_in_def)

lemma setdefault_cases: "setdefault d k v = d \<or> setdefault d k v = d @ [(k, v)]"
  by (simp add: setdefault_def dict_in_def dict_set_absent)

lemma prefix_setdefault: "prefix d (setdefault d k v)"
  using setdefault_cases [of d k v] by (auto simp: prefix_def)

lemma setdefault_keeps: "map_of d k \<noteq> None \<Longrightarrow> map_of (setdefault d k' v) k = map_of d k"
  by (auto simp: map_of_setdefault)

lemma setdefault_has: "map_of (setdefault d k v) k \<noteq> None"
  by (simp add: map_of_setdefault)

lemma setdefault_mono: "map_of d k \<noteq> None \<Longrightarrow> map_of (setdefault d k' v) k \<noteq> None"
  by (auto simp: map_of_setdefault)

subsection \<open>Defaulting\<close>

lemma apply_defaults_has:
  "k \<in> {''passenger_count'', ''extra_charges'', ''tip_amount'', ''tolls_amount'', ''payment_type''}
     \<Longrightarrow> map_of (apply_defaults L d) k \<noteq> None"
  unfolding apply_defaults_def Let_def
  by (elim insertE emptyE) (simp_all add: setdefault_has setdefault_mono)

lemma apply_defaults_keeps:
  "map_of d k \<noteq> None \<Longrightarrow> map_of (apply_defaults L d) k = map_of d k"
  unfolding apply_defaults_def Let_def
  by (simp add: setdefault_keeps setdefault_mono)

lemma prefix_apply_defaults: "prefix d (apply_defaults L d)"
  unfolding apply_defaults_def Let_def
  by (meson prefix_setdefault prefix_order.trans)

lemma apply_defaults_fixed:
  assumes "\<And>k. k \<in> {''passenger_count'', ''extra_charges'', ''tip_amount'', ''tolls_amount'',
                       ''payment_type''} \<Longrightarrow> map_of d k \<noteq> None"
  shows "apply_defaults L d = d"
  unfolding apply_defaults_def Let_def using assms
  by (simp add: setdefault_present)

text \<open>
  Claim C9. The defaulting step is idempotent: applied to its own result it changes
  nothing. It overwrites no field that is present, and it keeps the record's entries in
  their order, adding the missing fields at the end.
\<close>

theorem apply_defaults_idempotent:
  "apply_defaults L (apply_defaults L d) = apply_defaults L d
   \<and> (\<forall>k. dict_in k d \<longrightarrow> map_of (apply_defaults L d) k = map_of d k)
   \<and> prefix d (apply_defaults L d)"
proof (intro conjI allI impI)
  show "apply_defaults L (apply_defaults L d) = apply_defaults L d"
    by (rule apply_defaults_fixed) (rule apply_defaults_has)
  show "map_of (apply_defaults L d) k = map_of d k" if "dict_in k d" for k
    using that by (simp add: dict_in_def apply_defaults_keeps)
  show "prefix d (apply_defaults L d)"
    by (rule prefix_apply_defaults)
qed

text \<open>The theorem at the trip \<open>T2\<close>, which lacks two of the five fields.\<close>

theorem apply_defaults_idempotent_witness:
  "apply_defaults lib (apply_defaults lib trip_T2) = apply_defaults lib trip_T2
   \<and> dict_in ''tip_amount'' trip_T2
   \<and> map_of (apply_defaults lib trip_T2) ''tip_amount'' = Some (PFloat (25, 1))
   \<and> apply_defaults lib trip_T2
       = trip_T2 @ [(''passenger_count'', PInt 0), (''payment_type'', PStr ''CASH'')]"
proof -
  have i: "dict_in ''tip_amount'' trip_T2" by code_simp
  have v: "map_of trip_T2 ''tip_amount'' = Some (PFloat (25, 1))" by code_simp
  have a: "apply_defaults lib trip_T2
       = trip_T2 @ [(''passenger_count'', PInt 0), (''payment_type'', PStr ''CASH'')]"
    by code_simp
  from apply_defaults_idempotent [of lib trip_T2] i v a show ?thesis by metis
qed

subsection \<open>Validation\<close>

lemma missing_fields_eq:
  "missing_fields trip_data =
     filter (\<lambda>field. map_of trip_data field = None \<or> map_of trip_data field = Some PNone)
       [''trip_id'', ''taxi_id'', ''pickup_datetime'', ''pickup_lat'',
        ''pickup_long'', ''drop_lat'', ''drop_long'', ''distance_km'']"
proof -
  have "(if dict_in field trip_data then dict_item trip_data field = Inr PNone else True)
          = (map_of trip_data field = None \<or> map_of trip_data field = Some PNone)" for field
    by (auto simp: dict_in_def dict_item_def split: option.splits)
  then show ?thesis
    by (simp only: missing_fields_def required_fields_def)
qed

text \<open>
  Claim C5. A record that lacks one of the eight required fields, or holds \<^verbatim>\<open>None\<close>
  for it, fails validation, and the message is \<^verbatim>\<open>Missing required fields:\<close> followed
  by the list of exactly the fields that are absent or \<^verbatim>\<open>None\<close>, in the order
  \<^verbatim>\<open>trip_id, taxi_id, pickup_datetime, pickup_lat, pickup_long, drop_lat, drop_long,
  distance_km\<close>.
\<close>

theorem validate_names_missing_fields:
  assumes "\<exists>field \<in> set [''trip_id'', ''taxi_id'', ''pickup_datetime'', ''pickup_lat'',
                           ''pickup_long'', ''drop_lat'', ''drop_long'', ''distance_km''].
             map_of trip_data field = None \<or> map_of trip_data field = Some PNone"
  shows "validate_trip_data L trip_data =
           Inr (False, ''Missing required fields: '' @ repr_names
             (filter (\<lambda>field. map_of trip_data field = None \<or> map_of trip_data field = Some PNone)
                [''trip_id'', ''taxi_id'', ''pickup_datetime'', ''pickup_lat'',
                 ''pickup_long'', ''drop_lat'', ''drop_long'', ''distance_km'']))"
proof -
  from assms have "missing_fields trip_data \<noteq> []"
    unfolding missing_fields_eq filter_empty_conv by blast
  then show ?thesis
    unfolding validate_trip_data_def missing_fields_eq [symmetric] by simp
qed

text \<open>The theorem at the message \<open>T4\<close>, which has the first two fields only.\<close>

theorem validate_names_missing_fields_witness:
  "validate_trip_data lib trip_T4 =
     Inr (False, ''Missing required fields: '' @ repr_names
       (filter (\<lambda>field. map_of trip_T4 field = None \<or> map_of trip_T4 field = Some PNone)
          [''trip_id'', ''taxi_id'', ''pickup_datetime'', ''pickup_lat'',
           ''pickup_long'', ''drop_lat'', ''drop_long'', ''distance_km'']))
   \<and> validate_trip_data lib trip_T4 =
     Inr (False, ''Missing required fields: ['pickup_datetime', 'pickup_lat', 'pickup_long', 'drop_lat', 'drop_long', 'distance_km']'')"
proof -
  have m: "map_of trip_T4 ''drop_lat'' = None" by code_simp
  have h: "\<exists>field \<in> set [''trip_id'', ''taxi_id'', ''pickup_datetime'', ''pickup_lat'',
                           ''pickup_long'', ''drop_lat'', ''drop_long'', ''distance_km''].
             map_of trip_T4 field = None \<or> map_of trip_T4 field = Some PNone"
    using m by simp
  have v: "validate_trip_data lib trip_T4 =
     Inr (False, ''Missing required fields: ['pickup_datetime', 'pickup_lat', 'pickup_long', 'drop_lat', 'drop_long', 'distance_km']'')"
    by code_simp
  from validate_names_missing_fields [OF h, of lib] v show ?thesis by (rule conjI)
qed

end
